theory Spec2Isabelle
  imports Main "HOL-Library.Sublist"
begin

section \<open>Go standard library functions used by apply.go\<close>

text \<open>
  \<^verbatim>\<open>strings.Split(s, sep)\<close> for a one-byte separator: the pieces of \<open>s\<close> between the
  occurrences of the separator. The result always has at least one element.
\<close>

fun strings_Split :: "string \<Rightarrow> char \<Rightarrow> string list" where
  "strings_Split [] sep = [[]]"
| "strings_Split (c # cs) sep =
     (if c = sep then [] # strings_Split cs sep
      else (case strings_Split cs sep of
              [] \<Rightarrow> [[c]]
            | x # xs \<Rightarrow> (c # x) # xs))"

definition isDigit :: "char \<Rightarrow> bool" where
  "isDigit c = (c \<in> set ''0123456789'')"

definition digitVal :: "char \<Rightarrow> nat" where
  "digitVal c = of_char c - 48"

definition digitsVal :: "string \<Rightarrow> nat" where
  "digitsVal s = foldl (\<lambda>a c. 10 * a + digitVal c) 0 s"

text \<open>
  \<^verbatim>\<open>strconv.Atoi\<close> on a 64-bit platform, with the error result dropped as every call in
  apply.go drops it: a syntax error gives 0, a value out of range gives the nearest
  bound of \<^verbatim>\<open>int\<close>.
\<close>

definition strconv_Atoi :: "string \<Rightarrow> int" where
  "strconv_Atoi s =
     (let (neg, ds) =
        (case s of
           [] \<Rightarrow> (False, s)
         | c # r \<Rightarrow> if c = CHR ''-'' then (True, r)
                    else if c = CHR ''+'' then (False, r) else (False, s))
      in if ds = [] \<or> \<not> list_all isDigit ds then 0
         else if neg then max (- int (digitsVal ds)) (- (2 ^ 63))
         else min (int (digitsVal ds)) (2 ^ 63 - 1))"

fun string_of_nat :: "nat \<Rightarrow> string" where
  "string_of_nat n =
     (if n < 10 then [''0123456789'' ! n]
      else string_of_nat (n div 10) @ [''0123456789'' ! (n mod 10)])"

declare string_of_nat.simps [simp del]

text \<open>\<^verbatim>\<open>strconv.Itoa\<close>, which is also what \<^verbatim>\<open>%d\<close> prints.\<close>

definition strconv_Itoa :: "int \<Rightarrow> string" where
  "strconv_Itoa i = (if i < 0 then CHR ''-'' # string_of_nat (nat (- i)) else string_of_nat (nat i))"

text \<open>\<^verbatim>\<open>%v\<close> of a \<^verbatim>\<open>[]string\<close>: the elements between brackets, separated by one space.\<close>

fun joinSpace :: "string list \<Rightarrow> string" where
  "joinSpace [] = []"
| "joinSpace [x] = x"
| "joinSpace (x # y # ys) = x @ '' '' @ joinSpace (y # ys)"

definition fmt_v :: "string list \<Rightarrow> string" where
  "fmt_v xs = ''['' @ joinSpace xs @ '']''"

section \<open>Data model\<close>

text \<open>
  The types of package v1 that apply.go reads and writes, with the fields it uses.
  A Go \<^verbatim>\<open>map[string]T\<close> is a partial function from strings; a nil map reads as the
  empty one. A pointer that the code tests against nil is an \<open>option\<close>.
\<close>

datatype ParamType = ParamTypeString | ParamTypeArray | ParamTypeObject | ParamTypeOther

record ParamValue =
  Type :: ParamType
  StringVal :: string
  ArrayVal :: "string list"
  ObjectVal :: "string \<rightharpoonup> string"

type_synonym ResultValue = ParamValue

record Param =
  Name :: string
  Value :: ParamValue

record ParamSpec =
  Name :: string
  Default :: "ParamValue option"

record WhenExpression =
  Input :: string
  Operator :: string
  Values :: "string list"

record TaskRef =
  Name :: string
  Params :: "Param list option"

record IncludeParams =
  Name :: string
  Params :: "Param list"

record Matrix =
  Params :: "Param list"
  Include :: "IncludeParams list"

record WorkspacePipelineTaskBinding =
  Name :: string
  SubPath :: string

typedecl TaskSpec

record EmbeddedTask =
  TaskSpec :: TaskSpec

record PipelineTask =
  Name :: string
  DisplayName :: string
  Retries :: int
  Params :: "Param list"
  Matrix :: "Matrix option"
  When :: "WhenExpression list"
  TaskRef :: "TaskRef option"
  Workspaces :: "WorkspacePipelineTaskBinding list"
  OnError :: string
  TaskSpec :: "EmbeddedTask option"

record PipelineWorkspaceDeclaration =
  Name :: string

record PipelineSpec =
  Params :: "ParamSpec list"
  Tasks :: "PipelineTask list"
  Finally :: "PipelineTask list"
  Workspaces :: "PipelineWorkspaceDeclaration list"

record WorkspaceBinding =
  Name :: string

record PipelineRunSpec =
  Params :: "Param list"
  Workspaces :: "WorkspaceBinding list"

record PipelineRun =
  Name :: string
  Namespace :: string
  UID :: string
  Spec :: PipelineRunSpec

record PipelineRunStatus =
  PipelineSpec :: "PipelineSpec option"

record TaskRunResult =
  Name :: string
  Value :: ResultValue

record CustomRunResult =
  Name :: string
  Value :: string

record TaskRun =
  Results :: "TaskRunResult list"

record ResolvedPipelineTask =
  PipelineTask :: "PipelineTask option"
  TaskRuns :: "TaskRun list"
  ResultsCache :: "string \<rightharpoonup> string list"


record PipelineResult =
  Name :: string
  Value :: ResultValue

record PipelineRunResult =
  Name :: string
  Value :: ResultValue

type_synonym stringMap = "string \<rightharpoonup> string"
type_synonym arrayMap = "string \<rightharpoonup> string list"
type_synonym objectMap = "string \<rightharpoonup> (string \<rightharpoonup> string)"

text \<open>
  What apply.go calls and the sources do not hold: constants and methods of packages
  v1, v1beta1, substitution and resources, and the quoting of \<^verbatim>\<open>%q\<close>. Every function of
  this theory takes them as the record \<open>x\<close>, so each theorem holds for whatever they
  compute.
\<close>

record externals =
  goQuote :: "string \<Rightarrow> string"
  ResultTaskPart :: string
  ResultFinallyPart :: string
  ResultResultPart :: string
  PipelineTaskStatusPrefix :: string
  PipelineTaskStatusSuffix :: string
  TaskRunReasonSuccessful :: string
  PipelineResult_GetVarSubstitutionExpressions :: "PipelineResult \<Rightarrow> string list"
  Param_GetVarSubstitutionExpressions :: "Param \<Rightarrow> string list \<times> bool"
  ParseResultName :: "string \<Rightarrow> string \<times> string"
  ParseTaskandResultName :: "Param \<Rightarrow> string \<times> string"
  StripStarVarSubExpression :: "string \<Rightarrow> string"
  ResultValue_ApplyReplacements ::
    "ResultValue \<Rightarrow> stringMap \<Rightarrow> arrayMap \<Rightarrow> objectMap \<Rightarrow> ResultValue"
  substitution_ApplyReplacements :: "string \<Rightarrow> stringMap \<Rightarrow> string"
  Params_ReplaceVariables ::
    "Param list \<Rightarrow> stringMap \<Rightarrow> arrayMap \<Rightarrow> objectMap \<Rightarrow> Param list"
  When_ReplaceVariables ::
    "WhenExpression list \<Rightarrow> stringMap \<Rightarrow> arrayMap \<Rightarrow> WhenExpression list"
  resources_ApplyReplacements ::
    "TaskSpec \<Rightarrow> stringMap \<Rightarrow> arrayMap \<Rightarrow> objectMap \<Rightarrow> TaskSpec"
  CountCombinations :: "Matrix option \<Rightarrow> int"
  createResultsCacheMatrixedTaskRuns :: "ResolvedPipelineTask \<Rightarrow> (string \<rightharpoonup> string list)"

section \<open>Folding task results into the pipeline results\<close>

text \<open>
  \<open>taskResultValue\<close> and \<open>runResultValue\<close>: the value of the first result of that
  name among the results of that task, nil when the task has no entry in the map or no
  such result.
\<close>

definition taskResultValue ::
  "string \<Rightarrow> string \<Rightarrow> (string \<rightharpoonup> TaskRunResult list) \<Rightarrow> ResultValue option" where
  "taskResultValue taskName resultName taskResults =
     map_option TaskRunResult.Value
       (find (\<lambda>trResult. TaskRunResult.Name trResult = resultName)
         (case taskResults taskName of None \<Rightarrow> [] | Some rs \<Rightarrow> rs))"

definition runResultValue ::
  "string \<Rightarrow> string \<Rightarrow> (string \<rightharpoonup> CustomRunResult list) \<Rightarrow> string option" where
  "runResultValue taskName resultName runResults =
     map_option CustomRunResult.Value
       (find (\<lambda>runResult. CustomRunResult.Name runResult = resultName)
         (case runResults taskName of None \<Rightarrow> [] | Some rs \<Rightarrow> rs))"

text \<open>
  A run-time panic of the Go program: the only one apply.go can raise by itself is an
  index out of range, or a nil pointer dereference.
\<close>

datatype panic = IndexOutOfRange | NilDereference

text \<open>
  The variables of \<open>ApplyTaskResultsToPipelineResults\<close> that live across the loops:
  the three replacement maps, the results emitted so far and the names of the invalid
  results so far.
\<close>

record aggState =
  stringReplacements :: stringMap
  arrayReplacements :: arrayMap
  objectReplacements :: objectMap
  runResults :: "PipelineRunResult list"
  invalidPipelineResults :: "string list"

definition isMemoized :: "aggState \<Rightarrow> string \<Rightarrow> bool" where
  "isMemoized st variable =
     (stringReplacements st variable \<noteq> None \<or> arrayReplacements st variable \<noteq> None \<or>
      objectReplacements st variable \<noteq> None)"

text \<open>The two statements every failing branch runs: append the name, clear the flag.\<close>

definition markInvalid :: "string \<Rightarrow> aggState \<Rightarrow> aggState \<times> bool" where
  "markInvalid resultName st =
     (st\<lparr>invalidPipelineResults := invalidPipelineResults st @ [resultName]\<rparr>, False)"

text \<open>
  The branch taken when no result of that name is found: a recorded status other than
  the successful one clears the flag and continues; otherwise the result is invalid.
\<close>

definition missingResult ::
  "externals \<Rightarrow> (string \<rightharpoonup> string) \<Rightarrow> string \<Rightarrow> string \<Rightarrow> aggState \<Rightarrow> aggState \<times> bool" where
  "missingResult x taskstatus pipelineResultName taskName st =
     (case taskstatus (PipelineTaskStatusPrefix x @ taskName @ PipelineTaskStatusSuffix x) of
        Some status \<Rightarrow>
          if status \<noteq> TaskRunReasonSuccessful x then (st, False)
          else markInvalid pipelineResultName st
      | None \<Rightarrow> markInvalid pipelineResultName st)"

text \<open>
  The body of the inner loop, for one variable of one declared result. \<open>valid\<close> is
  \<open>validPipelineResult\<close>. The condition on the first and the third part reads
  \<open>variableParts[2]\<close> only when the first part is the task or the finally part, and
  panics there when the variable has fewer than three parts.
\<close>

definition resolveVariable ::
  "externals \<Rightarrow> (string \<rightharpoonup> TaskRunResult list) \<Rightarrow> (string \<rightharpoonup> CustomRunResult list) \<Rightarrow>
   (string \<rightharpoonup> string) \<Rightarrow> string \<Rightarrow> aggState \<times> bool \<Rightarrow> string \<Rightarrow> panic + aggState \<times> bool" where
  "resolveVariable x taskRunResults customTaskResults taskstatus pipelineResultName sv variable =
     (let st = fst sv; valid = snd sv in
      if isMemoized st variable then Inr (st, valid)
      else
        let variableParts = strings_Split variable CHR ''.'' in
        if variableParts ! 0 \<noteq> ResultTaskPart x \<and> variableParts ! 0 \<noteq> ResultFinallyPart x
        then Inr (markInvalid pipelineResultName st)
        else if length variableParts < 3 then Inl IndexOutOfRange
        else if variableParts ! 2 \<noteq> ResultResultPart x
        then Inr (markInvalid pipelineResultName st)
        else if length variableParts = 4 then
          (let taskName = variableParts ! 1;
               (resultName, stringIdx) = ParseResultName x (variableParts ! 3)
           in case taskResultValue taskName resultName taskRunResults of
                Some resultValue \<Rightarrow>
                  (case Type resultValue of
                     ParamTypeString \<Rightarrow>
                       Inr (st\<lparr>stringReplacements :=
                                (stringReplacements st)(variable \<mapsto> StringVal resultValue)\<rparr>, valid)
                   | ParamTypeArray \<Rightarrow>
                       if stringIdx \<noteq> ''*'' then
                         (let intIdx = strconv_Atoi stringIdx in
                          if intIdx < int (length (ArrayVal resultValue)) then
                            (if intIdx < 0 then Inl IndexOutOfRange
                             else Inr (st\<lparr>stringReplacements :=
                                    (stringReplacements st)
                                      (variable \<mapsto> ArrayVal resultValue ! nat intIdx)\<rparr>, valid))
                          else Inr (markInvalid pipelineResultName st))
                       else Inr (st\<lparr>arrayReplacements :=
                                (arrayReplacements st)
                                  (StripStarVarSubExpression x variable \<mapsto> ArrayVal resultValue)\<rparr>,
                                valid)
                   | ParamTypeObject \<Rightarrow>
                       Inr (st\<lparr>objectReplacements :=
                                (objectReplacements st)
                                  (StripStarVarSubExpression x variable \<mapsto> ObjectVal resultValue)\<rparr>,
                            valid)
                   | ParamTypeOther \<Rightarrow> Inr (st, valid))
              | None \<Rightarrow>
                  (case runResultValue taskName resultName customTaskResults of
                     Some resultValue \<Rightarrow>
                       Inr (st\<lparr>stringReplacements :=
                                (stringReplacements st)(variable \<mapsto> resultValue)\<rparr>, valid)
                   | None \<Rightarrow> Inr (missingResult x taskstatus pipelineResultName taskName st)))
        else if length variableParts = 5 then
          (let taskName = variableParts ! 1;
               objectKey = variableParts ! 4;
               resultName = fst (ParseResultName x (variableParts ! 3))
           in case taskResultValue taskName resultName taskRunResults of
                Some resultValue \<Rightarrow>
                  (case ObjectVal resultValue objectKey of
                     Some v \<Rightarrow>
                       Inr (st\<lparr>stringReplacements := (stringReplacements st)(variable \<mapsto> v)\<rparr>,
                            valid)
                   | None \<Rightarrow> Inr (markInvalid pipelineResultName st))
              | None \<Rightarrow> Inr (missingResult x taskstatus pipelineResultName taskName st))
        else Inr (markInvalid pipelineResultName st))"

text \<open>The inner loop over the variables of one declared result.\<close>

fun resolveVariables ::
  "externals \<Rightarrow> (string \<rightharpoonup> TaskRunResult list) \<Rightarrow> (string \<rightharpoonup> CustomRunResult list) \<Rightarrow>
   (string \<rightharpoonup> string) \<Rightarrow> string \<Rightarrow> aggState \<times> bool \<Rightarrow> string list \<Rightarrow> panic + aggState \<times> bool" where
  "resolveVariables x trr ctr ts pipelineResultName sv [] = Inr sv"
| "resolveVariables x trr ctr ts pipelineResultName sv (variable # variables) =
     (case resolveVariable x trr ctr ts pipelineResultName sv variable of
        Inl p \<Rightarrow> Inl p
      | Inr sv' \<Rightarrow> resolveVariables x trr ctr ts pipelineResultName sv' variables)"

text \<open>
  The body of the outer loop, for one declared result: nothing when it has no variable,
  else the inner loop with the flag set, and the result with its value substituted is
  appended when the flag is still set.
\<close>

definition processPipelineResult ::
  "externals \<Rightarrow> (string \<rightharpoonup> TaskRunResult list) \<Rightarrow> (string \<rightharpoonup> CustomRunResult list) \<Rightarrow>
   (string \<rightharpoonup> string) \<Rightarrow> aggState \<Rightarrow> PipelineResult \<Rightarrow> panic + aggState" where
  "processPipelineResult x trr ctr ts st pipelineResult =
     (let variablesInPipelineResult = PipelineResult_GetVarSubstitutionExpressions x pipelineResult in
      if length variablesInPipelineResult = 0 then Inr st
      else
        case resolveVariables x trr ctr ts (PipelineResult.Name pipelineResult) (st, True)
               variablesInPipelineResult of
          Inl p \<Rightarrow> Inl p
        | Inr (st', validPipelineResult) \<Rightarrow>
            if validPipelineResult then
              Inr (st'\<lparr>runResults := runResults st' @
                     [\<lparr>PipelineRunResult.Name = PipelineResult.Name pipelineResult,
                       Value = ResultValue_ApplyReplacements x (PipelineResult.Value pipelineResult)
                                 (stringReplacements st') (arrayReplacements st')
                                 (objectReplacements st')\<rparr>]\<rparr>)
            else Inr st')"

fun processPipelineResults ::
  "externals \<Rightarrow> (string \<rightharpoonup> TaskRunResult list) \<Rightarrow> (string \<rightharpoonup> CustomRunResult list) \<Rightarrow>
   (string \<rightharpoonup> string) \<Rightarrow> aggState \<Rightarrow> PipelineResult list \<Rightarrow> panic + aggState" where
  "processPipelineResults x trr ctr ts st [] = Inr st"
| "processPipelineResults x trr ctr ts st (pipelineResult # results) =
     (case processPipelineResult x trr ctr ts st pipelineResult of
        Inl p \<Rightarrow> Inl p
      | Inr st' \<Rightarrow> processPipelineResults x trr ctr ts st' results)"

definition initialAggState :: aggState where
  "initialAggState =
     \<lparr>stringReplacements = Map.empty, arrayReplacements = Map.empty,
      objectReplacements = Map.empty, runResults = [], invalidPipelineResults = []\<rparr>"

text \<open>The message of the error returned when some declared result is invalid.\<close>

definition invalidResultsError :: "string list \<Rightarrow> string" where
  "invalidResultsError names =
     ''invalid pipelineresults '' @ fmt_v names @ '', the referenced results don't exist''"

text \<open>
  \<open>ApplyTaskResultsToPipelineResults\<close>: a panic, or the pair the Go function returns,
  the results and the error (\<open>None\<close> is nil, \<open>Some\<close> holds the message).
\<close>

definition ApplyTaskResultsToPipelineResults ::
  "externals \<Rightarrow> PipelineResult list \<Rightarrow> (string \<rightharpoonup> TaskRunResult list) \<Rightarrow>
   (string \<rightharpoonup> CustomRunResult list) \<Rightarrow> (string \<rightharpoonup> string) \<Rightarrow>
   panic + PipelineRunResult list \<times> string option" where
  "ApplyTaskResultsToPipelineResults x results taskRunResults customTaskResults taskstatus =
     (case processPipelineResults x taskRunResults customTaskResults taskstatus
             initialAggState results of
        Inl p \<Rightarrow> Inl p
      | Inr st \<Rightarrow>
          if length (invalidPipelineResults st) > 0
          then Inr (runResults st, Some (invalidResultsError (invalidPipelineResults st)))
          else Inr (runResults st, None))"

section \<open>Parameters\<close>

text \<open>
  The three replacement maps a resolver builds and hands to the substitution.
\<close>

record replacementMaps =
  strings :: stringMap
  arrays :: arrayMap
  objects :: objectMap

definition emptyMaps :: replacementMaps where
  "emptyMaps = \<lparr>strings = Map.empty, arrays = Map.empty, objects = Map.empty\<rparr>"

text \<open>
  \<open>paramPatterns\<close>, each pattern applied to the name as \<^verbatim>\<open>fmt.Sprintf(pattern, name)\<close>
  does: \<^verbatim>\<open>params.%s\<close>, \<^verbatim>\<open>params[%q]\<close> and \<^verbatim>\<open>params['%s']\<close>.
\<close>

definition dottedPattern :: "string \<Rightarrow> string" where
  "dottedPattern name = ''params.'' @ name"

definition doubleQuotedPattern :: "externals \<Rightarrow> string \<Rightarrow> string" where
  "doubleQuotedPattern x name = ''params['' @ goQuote x name @ '']''"

definition singleQuotedPattern :: "string \<Rightarrow> string" where
  "singleQuotedPattern name = ''params['' @ [CHR 0x27] @ name @ [CHR 0x27] @ '']''"

definition paramPatterns :: "externals \<Rightarrow> (string \<Rightarrow> string) list" where
  "paramPatterns x = [dottedPattern, doubleQuotedPattern x, singleQuotedPattern]"

text \<open>\<^verbatim>\<open>fmt.Sprintf(pattern+"[%d]", name, i)\<close>.\<close>

definition indexed :: "string \<Rightarrow> nat \<Rightarrow> string" where
  "indexed key i = key @ ''['' @ strconv_Itoa (int i) @ '']''"

text \<open>\<open>objectIndividualVariablePattern\<close>: \<^verbatim>\<open>fmt.Sprintf("params.%s.%s", name, k)\<close>.\<close>

definition objectIndividualVariablePattern :: "string \<Rightarrow> string \<Rightarrow> string" where
  "objectIndividualVariablePattern name k = ''params.'' @ name @ ''.'' @ k"

text \<open>
  The loop \<^verbatim>\<open>for k, v := range ObjectVal { stringReplacements[params.<name>.<k>] = v }\<close>.
  A Go map has each key once and the key written determines \<open>k\<close>, so the order of the
  iteration does not show: the map afterwards holds \<open>v\<close> under the key of every \<open>k\<close> of
  the object and is unchanged elsewhere.
\<close>

definition setObjectKeys :: "string \<Rightarrow> (string \<rightharpoonup> string) \<Rightarrow> stringMap \<Rightarrow> stringMap" where
  "setObjectKeys name obj m =
     (\<lambda>key. if prefix (objectIndividualVariablePattern name []) key
            then (case obj (drop (length (objectIndividualVariablePattern name [])) key) of
                    Some v \<Rightarrow> Some v
                  | None \<Rightarrow> m key)
            else m key)"

text \<open>
  The switch on the type of a parameter value, which the loop over the declared defaults
  in \<open>ApplyParameters\<close> and the loop of \<open>paramsFromPipelineRun\<close> both run.
\<close>

definition setArrayParam :: "string \<Rightarrow> string list \<Rightarrow> replacementMaps \<Rightarrow> (string \<Rightarrow> string) \<Rightarrow> replacementMaps" where
  "setArrayParam name arrayVal m pattern =
     (foldl (\<lambda>m' (i, v). m'\<lparr>strings := (strings m')(indexed (pattern name) i \<mapsto> v)\<rparr>)
        m (enumerate 0 arrayVal))
     \<lparr>arrays := (arrays m)(pattern name \<mapsto> arrayVal)\<rparr>"

definition setParam :: "externals \<Rightarrow> string \<Rightarrow> ParamValue \<Rightarrow> replacementMaps \<Rightarrow> replacementMaps" where
  "setParam x name v m =
     (case Type v of
        ParamTypeArray \<Rightarrow> foldl (setArrayParam name (ArrayVal v)) m (paramPatterns x)
      | ParamTypeObject \<Rightarrow>
          (let m' = foldl (\<lambda>m' pattern. m'\<lparr>objects := (objects m')(pattern name \<mapsto> ObjectVal v)\<rparr>)
                      m (paramPatterns x)
           in m'\<lparr>strings := setObjectKeys name (ObjectVal v) (strings m')\<rparr>)
      | _ \<Rightarrow> foldl (\<lambda>m' pattern. m'\<lparr>strings := (strings m')(pattern name \<mapsto> StringVal v)\<rparr>)
               m (paramPatterns x))"

text \<open>The loop of \<open>ApplyParameters\<close> over the declared parameters that have a default.\<close>

definition defaultReplacements :: "externals \<Rightarrow> ParamSpec list \<Rightarrow> replacementMaps" where
  "defaultReplacements x params =
     foldl (\<lambda>m p. case Default p of
                      None \<Rightarrow> m
                    | Some d \<Rightarrow> setParam x (ParamSpec.Name p) d m)
       emptyMaps params"

definition paramsFromPipelineRun :: "externals \<Rightarrow> PipelineRun \<Rightarrow> replacementMaps" where
  "paramsFromPipelineRun x pr =
     foldl (\<lambda>m p. setParam x (Param.Name p) (Param.Value p) m)
       emptyMaps (PipelineRunSpec.Params (Spec pr))"

text \<open>
  The maps \<open>ApplyParameters\<close> hands to \<open>ApplyReplacements\<close>: the defaults, with every key
  of the maps of the run written over them.
\<close>

definition parameterReplacements :: "externals \<Rightarrow> PipelineSpec \<Rightarrow> PipelineRun \<Rightarrow> replacementMaps" where
  "parameterReplacements x p pr =
     (let d = defaultReplacements x (PipelineSpec.Params p);
          r = paramsFromPipelineRun x pr
      in \<lparr>strings = strings d ++ strings r,
          arrays = arrays d ++ arrays r,
          objects = objects d ++ objects r\<rparr>)"

section \<open>Substitution into the tasks of a pipeline\<close>

text \<open>
  \<open>IsMatrixed\<close> is not in the sources. Modelled from the spec: a matrixed task owns a
  matrix of parameters, or of include combinations.
\<close>

definition IsMatrixed :: "PipelineTask \<Rightarrow> bool" where
  "IsMatrixed pt =
     (case PipelineTask.Matrix pt of
        None \<Rightarrow> False
      | Some m \<Rightarrow> Matrix.Params m \<noteq> [] \<or> Include m \<noteq> [])"

text \<open>
  The substitution into a matrix: its parameters with the given string and array maps,
  the parameters of its include combinations with the string map alone.
\<close>

definition replaceInMatrix ::
  "externals \<Rightarrow> stringMap \<Rightarrow> arrayMap \<Rightarrow> objectMap \<Rightarrow> Matrix \<Rightarrow> Matrix" where
  "replaceInMatrix x s a ob m =
     \<lparr>Matrix.Params = Params_ReplaceVariables x (Matrix.Params m) s a ob,
      Include = map (\<lambda>inc. inc\<lparr>IncludeParams.Params :=
                        Params_ReplaceVariables x (IncludeParams.Params inc) s Map.empty Map.empty\<rparr>)
                  (Include m)\<rparr>"

definition replaceInTaskRef ::
  "externals \<Rightarrow> stringMap \<Rightarrow> arrayMap \<Rightarrow> objectMap \<Rightarrow> TaskRef \<Rightarrow> TaskRef" where
  "replaceInTaskRef x s a ob r =
     \<lparr>TaskRef.Name = substitution_ApplyReplacements x (TaskRef.Name r) s,
      Params = map_option (\<lambda>ps. Params_ReplaceVariables x ps s a ob) (TaskRef.Params r)\<rparr>"

text \<open>
  \<open>propagateParams\<close>: the parameters of the task shadow the pipeline's in the copies of
  the maps, for every pattern whose key a copy holds, before the substitution into the
  embedded task specification.
\<close>

definition shadowParam :: "Param \<Rightarrow> replacementMaps \<Rightarrow> (string \<Rightarrow> string) \<Rightarrow> replacementMaps" where
  "shadowParam par m pattern =
     (let checkName = pattern (Param.Name par);
          m1 = (if strings m checkName \<noteq> None
                then m\<lparr>strings := (strings m)(checkName \<mapsto> StringVal (Param.Value par))\<rparr> else m);
          m2 = (if arrays m1 checkName \<noteq> None
                then m1\<lparr>arrays := (arrays m1)(checkName \<mapsto> ArrayVal (Param.Value par))\<rparr> else m1)
      in if objects m2 checkName \<noteq> None
         then m2\<lparr>objects := (objects m2)(checkName \<mapsto> ObjectVal (Param.Value par)),
                 strings := setObjectKeys (Param.Name par) (ObjectVal (Param.Value par)) (strings m2)\<rparr>
         else m2)"

definition propagateParams :: "externals \<Rightarrow> PipelineTask \<Rightarrow> replacementMaps \<Rightarrow> PipelineTask" where
  "propagateParams x t m =
     (case PipelineTask.TaskSpec t of
        None \<Rightarrow> t
      | Some e \<Rightarrow>
          (let dup = (if length (PipelineTask.Params t) > 0
                      then foldl (\<lambda>m' par. foldl (shadowParam par) m' (paramPatterns x))
                             m (PipelineTask.Params t)
                      else m)
           in t\<lparr>PipelineTask.TaskSpec :=
                  Some (e\<lparr>EmbeddedTask.TaskSpec :=
                           resources_ApplyReplacements x (EmbeddedTask.TaskSpec e)
                             (strings dup) (arrays dup) (objects dup)\<rparr>)\<rparr>))"

text \<open>The body of the loop of \<open>replaceVariablesInPipelineTasks\<close>, for one task.\<close>

definition replaceVariablesInPipelineTask ::
  "externals \<Rightarrow> replacementMaps \<Rightarrow> PipelineTask \<Rightarrow> PipelineTask" where
  "replaceVariablesInPipelineTask x m t =
     (let s = strings m; a = arrays m; ob = objects m;
          t1 = t\<lparr>PipelineTask.Params := Params_ReplaceVariables x (PipelineTask.Params t) s a ob\<rparr>;
          t2 = (if IsMatrixed t1
                then t1\<lparr>PipelineTask.Matrix :=
                          map_option (replaceInMatrix x s a Map.empty) (PipelineTask.Matrix t1)\<rparr>
                else t1\<lparr>DisplayName := substitution_ApplyReplacements x (DisplayName t1) s\<rparr>);
          t3 = t2\<lparr>PipelineTask.Workspaces :=
                    map (\<lambda>w. w\<lparr>SubPath := substitution_ApplyReplacements x (SubPath w) s\<rparr>)
                      (PipelineTask.Workspaces t2)\<rparr>;
          t4 = t3\<lparr>When := When_ReplaceVariables x (When t3) s a\<rparr>;
          t5 = t4\<lparr>TaskRef := map_option (replaceInTaskRef x s a ob) (TaskRef t4)\<rparr>;
          t6 = t5\<lparr>OnError := substitution_ApplyReplacements x (OnError t5) s\<rparr>
      in propagateParams x t6 m)"

definition replaceVariablesInPipelineTasks ::
  "externals \<Rightarrow> PipelineTask list \<Rightarrow> replacementMaps \<Rightarrow> PipelineTask list" where
  "replaceVariablesInPipelineTasks x tasks m = map (replaceVariablesInPipelineTask x m) tasks"

text \<open>
  \<open>ApplyReplacements\<close> works on a deep copy of the specification, which as a value is
  the specification itself, and returns the copy.
\<close>

definition ApplyReplacements :: "externals \<Rightarrow> PipelineSpec \<Rightarrow> replacementMaps \<Rightarrow> PipelineSpec" where
  "ApplyReplacements x p m =
     p\<lparr>Tasks := replaceVariablesInPipelineTasks x (Tasks p) m,
       Finally := replaceVariablesInPipelineTasks x (Finally p) m\<rparr>"

definition ApplyParameters :: "externals \<Rightarrow> PipelineSpec \<Rightarrow> PipelineRun \<Rightarrow> PipelineSpec" where
  "ApplyParameters x p pr = ApplyReplacements x p (parameterReplacements x p pr)"

section \<open>Contexts and workspaces\<close>

definition GetContextReplacements :: "string \<Rightarrow> PipelineRun \<Rightarrow> stringMap" where
  "GetContextReplacements pipelineName pr =
     [''context.pipelineRun.name'' \<mapsto> PipelineRun.Name pr,
      ''context.pipeline.name'' \<mapsto> pipelineName,
      ''context.pipelineRun.namespace'' \<mapsto> Namespace pr,
      ''context.pipelineRun.uid'' \<mapsto> UID pr]"

text \<open>
  \<open>ApplyContexts\<close> takes the specification by pointer and writes the display names of
  its tasks before \<open>ApplyReplacements\<close> copies it. The model returns the pair of the
  caller's specification as the call leaves it, and of the specification returned.
\<close>

definition applyContextsToDisplayNames ::
  "externals \<Rightarrow> stringMap \<Rightarrow> PipelineTask list \<Rightarrow> PipelineTask list" where
  "applyContextsToDisplayNames x m tasks =
     map (\<lambda>t. t\<lparr>DisplayName := substitution_ApplyReplacements x (DisplayName t) m\<rparr>) tasks"

definition ApplyContexts ::
  "externals \<Rightarrow> PipelineSpec \<Rightarrow> string \<Rightarrow> PipelineRun \<Rightarrow> PipelineSpec \<times> PipelineSpec" where
  "ApplyContexts x spec pipelineName pr =
     (let m = GetContextReplacements pipelineName pr;
          spec' = spec\<lparr>Tasks := applyContextsToDisplayNames x m (Tasks spec),
                       Finally := applyContextsToDisplayNames x m (Finally spec)\<rparr>
      in (spec', ApplyReplacements x spec' \<lparr>strings = m, arrays = Map.empty, objects = Map.empty\<rparr>))"

definition workspaceBoundKey :: "string \<Rightarrow> string" where
  "workspaceBoundKey name = ''workspaces.'' @ name @ ''.bound''"

definition workspaceReplacements :: "PipelineSpec \<Rightarrow> PipelineRun \<Rightarrow> stringMap" where
  "workspaceReplacements p pr =
     foldl (\<lambda>m boundWorkspace. m(workspaceBoundKey (WorkspaceBinding.Name boundWorkspace) \<mapsto> ''true''))
       (foldl (\<lambda>m declaredWorkspace.
                 m(workspaceBoundKey (PipelineWorkspaceDeclaration.Name declaredWorkspace) \<mapsto> ''false''))
          Map.empty (PipelineSpec.Workspaces p))
       (PipelineRunSpec.Workspaces (Spec pr))"

definition ApplyWorkspaces :: "externals \<Rightarrow> PipelineSpec \<Rightarrow> PipelineRun \<Rightarrow> PipelineSpec" where
  "ApplyWorkspaces x p pr =
     ApplyReplacements x p
       \<lparr>strings = workspaceReplacements p pr, arrays = Map.empty, objects = Map.empty\<rparr>"

section \<open>The context of a pipeline task, and the matrix lengths\<close>












section \<open>Applying task results and the execution status to the run state\<close>

text \<open>
  \<open>ApplyTaskResults\<close>, from the three maps the getters of the resolved result references
  return. The run state is a slice of pointers: the state returned is the state the
  caller holds after the call.
\<close>

definition applyTaskResultsToTask :: "externals \<Rightarrow> replacementMaps \<Rightarrow> PipelineTask \<Rightarrow> PipelineTask" where
  "applyTaskResultsToTask x m t =
     (let s = strings m; a = arrays m; ob = objects m;
          t1 = t\<lparr>PipelineTask.Params := Params_ReplaceVariables x (PipelineTask.Params t) s a ob\<rparr>;
          t2 = (if IsMatrixed t1
                then t1\<lparr>PipelineTask.Matrix :=
                          map_option (replaceInMatrix x s a Map.empty) (PipelineTask.Matrix t1)\<rparr>
                else t1);
          t3 = t2\<lparr>When := When_ReplaceVariables x (When t2) s a\<rparr>;
          t4 = t3\<lparr>TaskRef := map_option (replaceInTaskRef x s a ob) (TaskRef t3)\<rparr>;
          t5 = t4\<lparr>DisplayName := substitution_ApplyReplacements x (DisplayName t4) s\<rparr>
      in t5\<lparr>PipelineTask.Workspaces :=
             map (\<lambda>w. w\<lparr>SubPath := substitution_ApplyReplacements x (SubPath w) s\<rparr>)
               (PipelineTask.Workspaces t5)\<rparr>)"

definition ApplyTaskResults ::
  "externals \<Rightarrow> ResolvedPipelineTask list \<Rightarrow> replacementMaps \<Rightarrow> ResolvedPipelineTask list" where
  "ApplyTaskResults x targets m =
     map (\<lambda>resolvedPipelineRunTask.
            case PipelineTask resolvedPipelineRunTask of
              None \<Rightarrow> resolvedPipelineRunTask
            | Some t \<Rightarrow> resolvedPipelineRunTask\<lparr>PipelineTask := Some (applyTaskResultsToTask x m t)\<rparr>)
       targets"

definition applyStateContextToTask :: "externals \<Rightarrow> stringMap \<Rightarrow> PipelineTask \<Rightarrow> PipelineTask" where
  "applyStateContextToTask x m t =
     (let t1 = t\<lparr>PipelineTask.Params :=
                   Params_ReplaceVariables x (PipelineTask.Params t) m Map.empty Map.empty\<rparr>;
          t2 = t1\<lparr>When := When_ReplaceVariables x (When t1) m Map.empty\<rparr>;
          t3 = t2\<lparr>TaskRef := map_option (replaceInTaskRef x m Map.empty Map.empty) (TaskRef t2)\<rparr>
      in t3\<lparr>DisplayName := substitution_ApplyReplacements x (DisplayName t3) m\<rparr>)"

definition ApplyPipelineTaskStateContext ::
  "externals \<Rightarrow> ResolvedPipelineTask list \<Rightarrow> stringMap \<Rightarrow> ResolvedPipelineTask list" where
  "ApplyPipelineTaskStateContext x state m =
     map (\<lambda>resolvedPipelineRunTask.
            case PipelineTask resolvedPipelineRunTask of
              None \<Rightarrow> resolvedPipelineRunTask
            | Some t \<Rightarrow> resolvedPipelineRunTask\<lparr>PipelineTask := Some (applyStateContextToTask x m t)\<rparr>)
       state"

section \<open>An instance of what the sources do not hold\<close>

text \<open>
  The theorems hold for every value of the record \<open>externals\<close>. The closed examples need
  one: the definitions of this section follow the specification where it describes the
  missing function, and Go's documentation for \<^verbatim>\<open>%q\<close>.
\<close>

text \<open>
  \<^verbatim>\<open>%q\<close> on a string of printable ASCII characters: the string between double quotes,
  with a backslash before each double quote and each backslash.
\<close>

definition quoteASCII :: "string \<Rightarrow> string" where
  "quoteASCII s =
     [CHR 0x22] @
     concat (map (\<lambda>c. if c = CHR 0x22 \<or> c = CHR 0x5C then [CHR 0x5C, c] else [c]) s) @
     [CHR 0x22]"

text \<open>
  Modelled from the spec: the Reference Extractor of section 4.2, that is the methods
  \<open>GetVarSubstitutionExpressions\<close>, which are not in the sources. It returns the
  reference expressions a text holds between \<^verbatim>\<open>$(\<close> and \<^verbatim>\<open>)\<close>, in the grammar of section 6:
  letters, digits, underscores, dots and hyphens, with an optional trailing \<^verbatim>\<open>[int]\<close> or
  \<^verbatim>\<open>[*]\<close>.
\<close>

definition isNameChar :: "char \<Rightarrow> bool" where
  "isNameChar c =
     (c \<in> set ''abcdefghijklmnopqrstuvwxyzABCDEFGHIJKLMNOPQRSTUVWXYZ0123456789_.-'')"

definition matchExpression :: "string \<Rightarrow> string option" where
  "matchExpression cs =
     (if take 1 cs \<noteq> ''('' then None
      else
        let name = takeWhile isNameChar (drop 1 cs);
            after = dropWhile isNameChar (drop 1 cs)
        in if name = [] then None
           else if take 1 after = '')'' then Some name
           else if take 1 after = ''['' then
             (let i = takeWhile (\<lambda>c. c \<noteq> CHR '']'') (drop 1 after);
                  tail = dropWhile (\<lambda>c. c \<noteq> CHR '']'') (drop 1 after)
              in if (i = ''*'' \<or> (i \<noteq> [] \<and> list_all isDigit i)) \<and> take 2 tail = ''])''
                 then Some (name @ ''['' @ i @ '']'')
                 else None)
           else None)"

fun varSubstitutionExpressions :: "string \<Rightarrow> string list" where
  "varSubstitutionExpressions [] = []"
| "varSubstitutionExpressions (c # cs) =
     (if c = CHR ''$'' then
        (case matchExpression cs of
           Some e \<Rightarrow> e # varSubstitutionExpressions cs
         | None \<Rightarrow> varSubstitutionExpressions cs)
      else varSubstitutionExpressions cs)"

text \<open>
  The expressions of a value are those of its string and of the elements of its array.
  Those of an object value come in the order in which Go iterates over the map, which
  is not fixed; the instance leaves them out.
\<close>

definition valueExpressions :: "ParamValue \<Rightarrow> string list" where
  "valueExpressions v =
     varSubstitutionExpressions (StringVal v) @ concat (map varSubstitutionExpressions (ArrayVal v))"

text \<open>
  Modelled from the spec: \<open>ParseResultName\<close>, which is not in the sources, strips the
  index or splat suffix of a result name and returns the base name and what stood
  between the brackets. A name with no such suffix comes back with the empty index.
\<close>

definition parseResultName :: "string \<Rightarrow> string \<times> string" where
  "parseResultName s =
     (let name = takeWhile (\<lambda>c. c \<noteq> CHR ''['') s;
          rest = dropWhile (\<lambda>c. c \<noteq> CHR ''['') s;
          i = butlast (drop 1 rest)
      in if rest \<noteq> [] \<and> drop 1 rest \<noteq> [] \<and> last rest = CHR '']'' \<and>
            (i = ''*'' \<or> list_all isDigit i)
         then (name, i) else (s, []))"

text \<open>
  Modelled from the spec: \<open>StripStarVarSubExpression\<close>, which is not in the sources,
  strips the splat suffix \<^verbatim>\<open>[*]\<close> of a reference to get its base key.
\<close>

definition stripStar :: "string \<Rightarrow> string" where
  "stripStar s = (if take 3 (rev s) = '']*['' then rev (drop 3 (rev s)) else s)"

text \<open>
  Modelled from the spec: the Substitution Engine of section 4.1 on one text, which is
  \<open>substitution.ApplyReplacements\<close>, not in the sources. Every \<^verbatim>\<open>$(key)\<close> of the text
  whose key the string map holds is replaced by the value, in one pass from the left;
  any other text stays. The number counts the characters of a replaced reference that
  are still to be skipped.
\<close>

fun applyStringReplacements :: "stringMap \<Rightarrow> nat \<Rightarrow> string \<Rightarrow> string" where
  "applyStringReplacements m k [] = []"
| "applyStringReplacements m (Suc k) (c # cs) = applyStringReplacements m k cs"
| "applyStringReplacements m 0 (c # cs) =
     (if c = CHR ''$'' \<and> take 1 cs = ''('' \<and> CHR '')'' \<in> set cs then
        (let key = takeWhile (\<lambda>d. d \<noteq> CHR '')'') (drop 1 cs) in
         case m key of
           Some v \<Rightarrow> v @ applyStringReplacements m (length key + 2) cs
         | None \<Rightarrow> c # applyStringReplacements m 0 cs)
      else c # applyStringReplacements m 0 cs)"

definition applyReplacements :: "string \<Rightarrow> stringMap \<Rightarrow> string" where
  "applyReplacements text m = applyStringReplacements m 0 text"

text \<open>
  Modelled from the spec: the Substitution Engine on a value. A string that is one
  reference to a key of the array map, with or without the splat, becomes that array,
  and one to a key of the object map becomes that object; any other string has its
  string references replaced. An element of an array that is one reference to a key of
  the array map is replaced by the elements of that array; any other element, and
  every value of an object, has its string references replaced.
\<close>

definition exactReference :: "string \<Rightarrow> string option" where
  "exactReference text =
     (if take 2 text = ''$('' \<and> text \<noteq> [] \<and> last text = CHR '')'' \<and>
         CHR '')'' \<notin> set (butlast text)
      then Some (stripStar (butlast (drop 2 text))) else None)"

definition valueApplyReplacements ::
  "ParamValue \<Rightarrow> stringMap \<Rightarrow> arrayMap \<Rightarrow> objectMap \<Rightarrow> ParamValue" where
  "valueApplyReplacements v s a ob =
     (case Type v of
        ParamTypeArray \<Rightarrow>
          v\<lparr>ArrayVal := concat (map (\<lambda>e.
               case Option.bind (exactReference e) a of
                 Some vs \<Rightarrow> vs
               | None \<Rightarrow> [applyReplacements e s]) (ArrayVal v))\<rparr>
      | ParamTypeObject \<Rightarrow>
          v\<lparr>ObjectVal := (\<lambda>k. map_option (\<lambda>e. applyReplacements e s) (ObjectVal v k))\<rparr>
      | _ \<Rightarrow>
          (case Option.bind (exactReference (StringVal v)) ob of
             Some obj \<Rightarrow> v\<lparr>Type := ParamTypeObject, StringVal := [], ObjectVal := obj\<rparr>
           | None \<Rightarrow>
               (case Option.bind (exactReference (StringVal v)) a of
                  Some vs \<Rightarrow> v\<lparr>Type := ParamTypeArray, StringVal := [], ArrayVal := vs\<rparr>
                | None \<Rightarrow> v\<lparr>StringVal := applyReplacements (StringVal v) s\<rparr>)))"

definition paramsReplaceVariables ::
  "Param list \<Rightarrow> stringMap \<Rightarrow> arrayMap \<Rightarrow> objectMap \<Rightarrow> Param list" where
  "paramsReplaceVariables ps s a ob =
     map (\<lambda>p. p\<lparr>Param.Value := valueApplyReplacements (Param.Value p) s a ob\<rparr>) ps"

definition whenReplaceVariables ::
  "WhenExpression list \<Rightarrow> stringMap \<Rightarrow> arrayMap \<Rightarrow> WhenExpression list" where
  "whenReplaceVariables ws s a =
     map (\<lambda>w. w\<lparr>Input := applyReplacements (Input w) s,
               Values := concat (map (\<lambda>e.
                 case Option.bind (exactReference e) a of
                   Some vs \<Rightarrow> vs
                 | None \<Rightarrow> [applyReplacements e s]) (Values w))\<rparr>) ws"

text \<open>
  Modelled from the spec: \<open>ParseTaskandResultName\<close>, which is not in the sources, reads
  the producing task and the result of the first matrix-length reference of a parameter:
  \<^verbatim>\<open>tasks.<name>.matrix.length\<close> names a task and no result,
  \<^verbatim>\<open>tasks.<name>.matrix.<result>.length\<close> a task and a result.
\<close>

fun firstTaskAndResult :: "string list \<Rightarrow> string \<times> string" where
  "firstTaskAndResult [] = ([], [])"
| "firstTaskAndResult (e # es) =
     (let sub = strings_Split e CHR ''.'' in
      if length sub = 4 then (sub ! 1, [])
      else if length sub = 5 then (sub ! 1, sub ! 3)
      else firstTaskAndResult es)"

text \<open>
  Modelled from the spec: \<open>CountCombinations\<close>, which is not in the sources, is the
  product of the lengths of the value sequences of the matrix parameters, or the
  number of include combinations when the matrix has no parameter.
\<close>

definition countCombinations :: "Matrix option \<Rightarrow> int" where
  "countCombinations mo =
     (case mo of
        None \<Rightarrow> 0
      | Some m \<Rightarrow>
          if Matrix.Params m = [] then int (length (Include m))
          else int (prod_list (map (\<lambda>p. length (ArrayVal (Param.Value p))) (Matrix.Params m))))"

text \<open>
  Modelled from the spec: \<open>createResultsCacheMatrixedTaskRuns\<close>, which is not in the
  sources, gathers under each result name the values that result took in the child
  runs of the entry, in the order of the runs.
\<close>

definition createResultsCache :: "ResolvedPipelineTask \<Rightarrow> (string \<rightharpoonup> string list)" where
  "createResultsCache rpt =
     foldl (\<lambda>cache result.
              cache(TaskRunResult.Name result \<mapsto>
                (case cache (TaskRunResult.Name result) of None \<Rightarrow> [] | Some vs \<Rightarrow> vs) @
                [StringVal (TaskRunResult.Value result)]))
       (ResultsCache rpt) (concat (map Results (TaskRuns rpt)))"

text \<open>
  The instance. The three parts of a result reference are those of the grammar of
  section 6; the status key of a task and the reason of a successful run are the ones
  Tekton documents, \<^verbatim>\<open>tasks.<name>.status\<close> and \<^verbatim>\<open>Succeeded\<close>. The task specification is
  opaque here, and is left as it is.
\<close>

definition tektonExternals :: externals where
  "tektonExternals =
     \<lparr>goQuote = quoteASCII,
      ResultTaskPart = ''tasks'',
      ResultFinallyPart = ''finally'',
      ResultResultPart = ''results'',
      PipelineTaskStatusPrefix = ''tasks.'',
      PipelineTaskStatusSuffix = ''.status'',
      TaskRunReasonSuccessful = ''Succeeded'',
      PipelineResult_GetVarSubstitutionExpressions = (\<lambda>r. valueExpressions (PipelineResult.Value r)),
      Param_GetVarSubstitutionExpressions =
        (\<lambda>p. (valueExpressions (Param.Value p), valueExpressions (Param.Value p) \<noteq> [])),
      ParseResultName = parseResultName,
      ParseTaskandResultName = (\<lambda>p. firstTaskAndResult (valueExpressions (Param.Value p))),
      StripStarVarSubExpression = stripStar,
      ResultValue_ApplyReplacements = valueApplyReplacements,
      substitution_ApplyReplacements = applyReplacements,
      Params_ReplaceVariables = paramsReplaceVariables,
      When_ReplaceVariables = whenReplaceVariables,
      resources_ApplyReplacements = (\<lambda>ts s a ob. ts),
      CountCombinations = countCombinations,
      createResultsCacheMatrixedTaskRuns = createResultsCache\<rparr>"

text \<open>Values of the three shapes, for the examples.\<close>

definition stringValue :: "string \<Rightarrow> ParamValue" where
  "stringValue s = \<lparr>Type = ParamTypeString, StringVal = s, ArrayVal = [], ObjectVal = Map.empty\<rparr>"

definition arrayValue :: "string list \<Rightarrow> ParamValue" where
  "arrayValue vs = \<lparr>Type = ParamTypeArray, StringVal = [], ArrayVal = vs, ObjectVal = Map.empty\<rparr>"

definition objectValue :: "(string \<rightharpoonup> string) \<Rightarrow> ParamValue" where
  "objectValue obj = \<lparr>Type = ParamTypeObject, StringVal = [], ArrayVal = [], ObjectVal = obj\<rparr>"

section \<open>Predicates and closed forms used in the statements\<close>

text \<open>
  What one lookup of a result length does to an entry of the run state: the cache is
  computed when the entry is of that task and its cache is empty. \<open>filledPositions\<close>
  lists the positions of the entries for which it is.
\<close>

definition fillsCache :: "string \<Rightarrow> ResolvedPipelineTask \<Rightarrow> bool" where
  "fillsCache pipelineTaskName rpt =
     (map_option PipelineTask.Name (PipelineTask rpt) = Some pipelineTaskName \<and>
      ResultsCache rpt = Map.empty)"

definition withCache :: "externals \<Rightarrow> string \<Rightarrow> ResolvedPipelineTask \<Rightarrow> ResolvedPipelineTask" where
  "withCache x pipelineTaskName rpt =
     (if fillsCache pipelineTaskName rpt
      then rpt\<lparr>ResultsCache := createResultsCacheMatrixedTaskRuns x rpt\<rparr> else rpt)"








section \<open>Inputs of the examples\<close>

definition digestResult :: PipelineResult where
  "digestResult =
     \<lparr>PipelineResult.Name = ''image-digest'',
      Value = stringValue ''$(tasks.build.results.digest)''\<rparr>"

definition buildResults :: "string \<rightharpoonup> TaskRunResult list" where
  "buildResults =
     [''build'' \<mapsto>
        [\<lparr>TaskRunResult.Name = ''digest'', Value = stringValue ''sha256:abc''\<rparr>,
         \<lparr>TaskRunResult.Name = ''files'', Value = arrayValue [''a'', ''b'', ''c'']\<rparr>]]"

definition secondFile :: PipelineResult where
  "secondFile = \<lparr>PipelineResult.Name = ''second'', Value = stringValue ''$(tasks.build.results.files[1])''\<rparr>"

definition sixthFile :: PipelineResult where
  "sixthFile = \<lparr>PipelineResult.Name = ''sixth'', Value = stringValue ''$(tasks.build.results.files[5])''\<rparr>"

definition shortReference :: PipelineResult where
  "shortReference = \<lparr>PipelineResult.Name = ''short'', Value = stringValue ''$(tasks.foo)''\<rparr>"




definition greetTask :: PipelineTask where
  "greetTask =
     \<lparr>PipelineTask.Name = ''greet'',
      DisplayName = ''digest $(tasks.build.results.digest)'',
      Retries = 2,
      Params = [\<lparr>Param.Name = ''message'', Value = stringValue ''$(tasks.build.results.digest)''\<rparr>],
      Matrix = None, When = [], TaskRef = None, Workspaces = [], OnError = [],
      TaskSpec = None\<rparr>"

definition greetTaskResolved :: PipelineTask where
  "greetTaskResolved =
     \<lparr>PipelineTask.Name = ''greet'',
      DisplayName = ''digest sha256:abc'',
      Retries = 2,
      Params = [\<lparr>Param.Name = ''message'', Value = stringValue ''sha256:abc''\<rparr>],
      Matrix = None, When = [], TaskRef = None, Workspaces = [], OnError = [],
      TaskSpec = None\<rparr>"

definition nilEntry :: ResolvedPipelineTask where
  "nilEntry = \<lparr>PipelineTask = None, TaskRuns = [], ResultsCache = Map.empty\<rparr>"

definition greetEntry :: ResolvedPipelineTask where
  "greetEntry = \<lparr>PipelineTask = Some greetTask, TaskRuns = [], ResultsCache = Map.empty\<rparr>"

definition digestMaps :: replacementMaps where
  "digestMaps =
     \<lparr>strings = [''tasks.build.results.digest'' \<mapsto> ''sha256:abc''],
      arrays = Map.empty, objects = Map.empty\<rparr>"

definition namedTask :: PipelineTask where
  "namedTask =
     \<lparr>PipelineTask.Name = ''build'',
      DisplayName = ''build of $(context.pipeline.name)'',
      Retries = 0, Params = [], Matrix = None, When = [], TaskRef = None, Workspaces = [],
      OnError = [], TaskSpec = None\<rparr>"

definition namedSpec :: PipelineSpec where
  "namedSpec = \<lparr>PipelineSpec.Params = [], Tasks = [namedTask], Finally = [], Workspaces = []\<rparr>"

definition plainRun :: PipelineRun where
  "plainRun =
     \<lparr>PipelineRun.Name = ''run-1'', Namespace = ''default'', UID = ''u-1'',
      Spec = \<lparr>PipelineRunSpec.Params = [], Workspaces = []\<rparr>\<rparr>"








section \<open>Lemmas on the Go functions\<close>

lemma strings_Split_nonempty: "strings_Split s c \<noteq> []"
  by (induction s) (auto split: list.splits)

lemma Atoi_digits:
  assumes "idx \<noteq> []" "list_all isDigit idx"
  shows "strconv_Atoi idx = min (int (digitsVal idx)) (2 ^ 63 - 1)"
proof -
  obtain c r where idx: "idx = c # r" using assms(1) by (cases idx) auto
  with assms(2) have "isDigit c" by simp
  then have "c \<noteq> CHR ''-''" "c \<noteq> CHR ''+''" by (auto simp: isDigit_def)
  with idx assms show ?thesis by (simp add: strconv_Atoi_def)
qed

lemma digits_not_star: "list_all isDigit idx \<Longrightarrow> idx \<noteq> ''*''"
  by (auto simp: isDigit_def)

section \<open>The aggregator\<close>

lemma not_memoized_initial: "\<not> isMemoized initialAggState v"
  by (simp add: isMemoized_def initialAggState_def)

lemma missingResult_flag: "snd (missingResult x ts n taskName st) = False"
  by (simp add: missingResult_def markInvalid_def split: option.splits)

lemma resolveVariable_missing:
  assumes parts: "strings_Split v CHR ''.'' = p0 # taskName # ResultResultPart x # r # rest"
    and rest: "length rest \<le> 1"
    and p0: "p0 = ResultTaskPart x \<or> p0 = ResultFinallyPart x"
    and a1: "taskResultValue taskName (fst (ParseResultName x r)) trr = None"
    and a2: "runResultValue taskName (fst (ParseResultName x r)) ctr = None"
    and nm: "\<not> isMemoized st v"
  shows "resolveVariable x trr ctr ts n (st, valid) v = Inr (missingResult x ts n taskName st)"
proof (cases rest)
  case Nil
  with assms show ?thesis
    by (auto simp: resolveVariable_def Let_def split: prod.splits)
next
  case (Cons k ks)
  with rest have "ks = []" by simp
  with Cons assms show ?thesis
    by (auto simp: resolveVariable_def Let_def split: prod.splits)
qed

lemma processPipelineResult_invalid:
  assumes "PipelineResult_GetVarSubstitutionExpressions x pr = [v]"
    and "resolveVariable x trr ctr ts (PipelineResult.Name pr) (st, True) v = Inr (st', False)"
  shows "processPipelineResult x trr ctr ts st pr = Inr st'"
  using assms by (simp add: processPipelineResult_def)

lemma processPipelineResult_valid:
  assumes "PipelineResult_GetVarSubstitutionExpressions x pr = [v]"
    and "resolveVariable x trr ctr ts (PipelineResult.Name pr) (st, True) v = Inr (st', True)"
  shows "processPipelineResult x trr ctr ts st pr =
     Inr (st'\<lparr>runResults := runResults st' @
            [\<lparr>PipelineRunResult.Name = PipelineResult.Name pr,
              Value = ResultValue_ApplyReplacements x (PipelineResult.Value pr)
                        (stringReplacements st') (arrayReplacements st')
                        (objectReplacements st')\<rparr>]\<rparr>)"
  using assms by (simp add: processPipelineResult_def)

lemma Apply_single:
  assumes "processPipelineResult x trr ctr ts initialAggState pr = Inr st"
  shows "ApplyTaskResultsToPipelineResults x [pr] trr ctr ts =
     Inr (runResults st,
          if invalidPipelineResults st = [] then None
          else Some (invalidResultsError (invalidPipelineResults st)))"
  using assms by (simp add: ApplyTaskResultsToPipelineResults_def)

lemma digest_vars:
  "PipelineResult_GetVarSubstitutionExpressions tektonExternals digestResult =
     [''tasks.build.results.digest'']"
  by (simp add: tektonExternals_def digestResult_def valueExpressions_def stringValue_def
      matchExpression_def isNameChar_def)

text \<open>
  C2. A declared result whose only variable has four or five parts and names a result
  that neither the task results nor the custom task results hold: when the status map
  holds, under the key of the task, a status other than the successful one, the
  iteration of the outer loop leaves the results and the invalid names as they were,
  and the call on that declared result alone returns no result and no error; when the
  status map has no entry under that key, the name of the declared result is appended
  to the invalid names, and the call on it alone returns no result and the error that
  names it.
\<close>

theorem skipped_producer_is_dropped_unknown_is_invalid:
  assumes vars: "PipelineResult_GetVarSubstitutionExpressions x pr = [v]"
    and parts: "strings_Split v CHR ''.'' = p0 # taskName # ResultResultPart x # r # rest"
    and rest: "length rest \<le> 1"
    and p0: "p0 = ResultTaskPart x \<or> p0 = ResultFinallyPart x"
    and a1: "taskResultValue taskName (fst (ParseResultName x r)) trr = None"
    and a2: "runResultValue taskName (fst (ParseResultName x r)) ctr = None"
    and nm: "\<not> isMemoized st v"
  shows "(\<forall>status.
            ts (PipelineTaskStatusPrefix x @ taskName @ PipelineTaskStatusSuffix x) = Some status \<and>
            status \<noteq> TaskRunReasonSuccessful x \<longrightarrow>
            processPipelineResult x trr ctr ts st pr = Inr st \<and>
            ApplyTaskResultsToPipelineResults x [pr] trr ctr ts = Inr ([], None)) \<and>
         (ts (PipelineTaskStatusPrefix x @ taskName @ PipelineTaskStatusSuffix x) = None \<longrightarrow>
            processPipelineResult x trr ctr ts st pr =
              Inr (st\<lparr>invalidPipelineResults :=
                        invalidPipelineResults st @ [PipelineResult.Name pr]\<rparr>) \<and>
            ApplyTaskResultsToPipelineResults x [pr] trr ctr ts =
              Inr ([], Some (invalidResultsError [PipelineResult.Name pr])))"
proof -
  let ?n = "PipelineResult.Name pr"
  have one: "processPipelineResult x trr ctr ts s pr = Inr (fst (missingResult x ts ?n taskName s))"
    if "\<not> isMemoized s v" for s
  proof -
    have "resolveVariable x trr ctr ts ?n (s, True) v =
        Inr (fst (missingResult x ts ?n taskName s), False)"
      using resolveVariable_missing [OF parts rest p0 a1 a2 that, of ts ?n True]
        missingResult_flag [of x ts ?n taskName s]
      by (metis prod.collapse)
    then show ?thesis by (rule processPipelineResult_invalid [OF vars])
  qed
  have init: "ApplyTaskResultsToPipelineResults x [pr] trr ctr ts =
     Inr (runResults (fst (missingResult x ts ?n taskName initialAggState)),
          if invalidPipelineResults (fst (missingResult x ts ?n taskName initialAggState)) = [] then None
          else Some (invalidResultsError
                 (invalidPipelineResults (fst (missingResult x ts ?n taskName initialAggState)))))"
    by (rule Apply_single [OF one [OF not_memoized_initial]])
  show ?thesis
    using one [OF nm] init
    by (auto simp: missingResult_def markInvalid_def initialAggState_def)
qed

theorem skipped_producer_witness:
  "ApplyTaskResultsToPipelineResults tektonExternals [digestResult] Map.empty Map.empty
      [''tasks.build.status'' \<mapsto> ''Failed''] = Inr ([], None) \<and>
   ApplyTaskResultsToPipelineResults tektonExternals [digestResult] Map.empty Map.empty Map.empty =
      Inr ([], Some (invalidResultsError [''image-digest'']))"
proof -
  have parts: "strings_Split ''tasks.build.results.digest'' CHR ''.'' =
      ''tasks'' # ''build'' # ResultResultPart tektonExternals # ''digest'' # []"
    by (simp add: tektonExternals_def)
  have p0: "''tasks'' = ResultTaskPart tektonExternals \<or> ''tasks'' = ResultFinallyPart tektonExternals"
    by (simp add: tektonExternals_def)
  have a1: "taskResultValue ''build'' (fst (ParseResultName tektonExternals ''digest'')) Map.empty = None"
    by (simp add: taskResultValue_def)
  have a2: "runResultValue ''build'' (fst (ParseResultName tektonExternals ''digest'')) Map.empty = None"
    by (simp add: runResultValue_def)
  note T = skipped_producer_is_dropped_unknown_is_invalid
      [OF digest_vars parts _ p0 a1 a2 not_memoized_initial]
  have "ApplyTaskResultsToPipelineResults tektonExternals [digestResult] Map.empty Map.empty
      [''tasks.build.status'' \<mapsto> ''Failed''] = Inr ([], None)"
    using T [of "[''tasks.build.status'' \<mapsto> ''Failed'']"]
    by (simp add: tektonExternals_def)
  moreover have "ApplyTaskResultsToPipelineResults tektonExternals [digestResult] Map.empty Map.empty Map.empty =
      Inr ([], Some (invalidResultsError [''image-digest'']))"
    using T [of Map.empty]
    by (simp add: tektonExternals_def digestResult_def)
  ultimately show ?thesis by simp
qed

lemma resolveVariable_array_index:
  assumes parts: "strings_Split v CHR ''.'' = [p0, taskName, ResultResultPart x, r]"
    and p0: "p0 = ResultTaskPart x \<or> p0 = ResultFinallyPart x"
    and prn: "ParseResultName x r = (resultName, idx)"
    and idx: "idx \<noteq> []" "list_all isDigit idx"
    and rv: "taskResultValue taskName resultName trr = Some rv" "Type rv = ParamTypeArray"
    and len: "int (length (ArrayVal rv)) < 2 ^ 63"
    and nm: "\<not> isMemoized st v"
  shows "resolveVariable x trr ctr ts n (st, valid) v =
     (if digitsVal idx < length (ArrayVal rv)
      then Inr (st\<lparr>stringReplacements :=
                  (stringReplacements st)(v \<mapsto> ArrayVal rv ! digitsVal idx)\<rparr>, valid)
      else Inr (markInvalid n st))"
proof -
  have A: "strconv_Atoi idx = min (int (digitsVal idx)) (2 ^ 63 - 1)"
    using Atoi_digits [OF idx] .
  have S: "idx \<noteq> ''*''" using digits_not_star [OF idx(2)] .
  show ?thesis
  proof (cases "digitsVal idx < length (ArrayVal rv)")
    case True
    then have "int (digitsVal idx) < 2 ^ 63" using len by linarith
    then have "strconv_Atoi idx = int (digitsVal idx)" using A by simp
    with True parts p0 prn rv nm S show ?thesis
      by (auto simp: resolveVariable_def Let_def)
  next
    case False
    then have "\<not> strconv_Atoi idx < int (length (ArrayVal rv))" using A len by simp
    with False parts p0 prn rv nm S show ?thesis
      by (auto simp: resolveVariable_def Let_def)
  qed
qed

text \<open>
  C5. A reference of four parts to an array result of a task, with a decimal index
  between the brackets: when the index is below the length of the array, the variable is
  bound in the string replacements to the element at that index, and the call on a
  declared result with that one variable returns the result with the element
  substituted and no error; when the index is at or beyond the length, the name of the
  declared result is appended to the invalid names and the flag is cleared, and the
  call returns no result and the error that names it. Neither case panics. The length
  of a Go slice is below \<open>2 ^ 63\<close>.
\<close>

theorem array_index_is_bounds_checked:
  assumes vars: "PipelineResult_GetVarSubstitutionExpressions x pr = [v]"
    and parts: "strings_Split v CHR ''.'' = [p0, taskName, ResultResultPart x, r]"
    and p0: "p0 = ResultTaskPart x \<or> p0 = ResultFinallyPart x"
    and prn: "ParseResultName x r = (resultName, idx)"
    and idx: "idx \<noteq> []" "list_all isDigit idx"
    and rv: "taskResultValue taskName resultName trr = Some rv" "Type rv = ParamTypeArray"
    and len: "int (length (ArrayVal rv)) < 2 ^ 63"
    and nm: "\<not> isMemoized st v"
  shows "resolveVariable x trr ctr ts n (st, valid) v =
           (if digitsVal idx < length (ArrayVal rv)
            then Inr (st\<lparr>stringReplacements :=
                        (stringReplacements st)(v \<mapsto> ArrayVal rv ! digitsVal idx)\<rparr>, valid)
            else Inr (st\<lparr>invalidPipelineResults := invalidPipelineResults st @ [n]\<rparr>, False)) \<and>
         ApplyTaskResultsToPipelineResults x [pr] trr ctr ts =
           (if digitsVal idx < length (ArrayVal rv)
            then Inr ([\<lparr>PipelineRunResult.Name = PipelineResult.Name pr,
                        Value = ResultValue_ApplyReplacements x (PipelineResult.Value pr)
                                  [v \<mapsto> ArrayVal rv ! digitsVal idx] Map.empty Map.empty\<rparr>], None)
            else Inr ([], Some (invalidResultsError [PipelineResult.Name pr])))"
proof -
  note step = resolveVariable_array_index [OF parts p0 prn idx rv len]
  have first: "resolveVariable x trr ctr ts n (st, valid) v =
           (if digitsVal idx < length (ArrayVal rv)
            then Inr (st\<lparr>stringReplacements :=
                        (stringReplacements st)(v \<mapsto> ArrayVal rv ! digitsVal idx)\<rparr>, valid)
            else Inr (st\<lparr>invalidPipelineResults := invalidPipelineResults st @ [n]\<rparr>, False))"
    using step [OF nm] by (simp add: markInvalid_def)
  have second: "ApplyTaskResultsToPipelineResults x [pr] trr ctr ts =
           (if digitsVal idx < length (ArrayVal rv)
            then Inr ([\<lparr>PipelineRunResult.Name = PipelineResult.Name pr,
                        Value = ResultValue_ApplyReplacements x (PipelineResult.Value pr)
                                  [v \<mapsto> ArrayVal rv ! digitsVal idx] Map.empty Map.empty\<rparr>], None)
            else Inr ([], Some (invalidResultsError [PipelineResult.Name pr])))"
  proof (cases "digitsVal idx < length (ArrayVal rv)")
    case True
    with step [OF not_memoized_initial, of ctr ts "PipelineResult.Name pr" True]
    have "resolveVariable x trr ctr ts (PipelineResult.Name pr) (initialAggState, True) v =
        Inr (initialAggState\<lparr>stringReplacements :=
               (stringReplacements initialAggState)(v \<mapsto> ArrayVal rv ! digitsVal idx)\<rparr>, True)"
      by simp
    from Apply_single [OF processPipelineResult_valid [OF vars this]] True
    show ?thesis by (simp add: initialAggState_def)
  next
    case False
    with step [OF not_memoized_initial, of ctr ts "PipelineResult.Name pr" True]
    have "resolveVariable x trr ctr ts (PipelineResult.Name pr) (initialAggState, True) v =
        Inr (initialAggState\<lparr>invalidPipelineResults :=
               invalidPipelineResults initialAggState @ [PipelineResult.Name pr]\<rparr>, False)"
      by (simp add: markInvalid_def)
    from Apply_single [OF processPipelineResult_invalid [OF vars this]] False
    show ?thesis by (simp add: initialAggState_def)
  qed
  from first second show ?thesis by (rule conjI)
qed

lemma second_vars:
  "PipelineResult_GetVarSubstitutionExpressions tektonExternals secondFile =
     [''tasks.build.results.files[1]'']"
  by (simp add: tektonExternals_def secondFile_def valueExpressions_def stringValue_def
      matchExpression_def isNameChar_def isDigit_def)

lemma sixth_vars:
  "PipelineResult_GetVarSubstitutionExpressions tektonExternals sixthFile =
     [''tasks.build.results.files[5]'']"
  by (simp add: tektonExternals_def sixthFile_def valueExpressions_def stringValue_def
      matchExpression_def isNameChar_def isDigit_def)

lemma files_value:
  "taskResultValue ''build'' ''files'' buildResults = Some (arrayValue [''a'', ''b'', ''c''])"
  by (simp add: taskResultValue_def buildResults_def)

theorem array_index_witness:
  "ApplyTaskResultsToPipelineResults tektonExternals [secondFile] buildResults Map.empty Map.empty =
     Inr ([\<lparr>PipelineRunResult.Name = ''second'', Value = stringValue ''b''\<rparr>], None) \<and>
   ApplyTaskResultsToPipelineResults tektonExternals [sixthFile] buildResults Map.empty Map.empty =
     Inr ([], Some (invalidResultsError [''sixth'']))"
proof -
  have p0: "''tasks'' = ResultTaskPart tektonExternals \<or> ''tasks'' = ResultFinallyPart tektonExternals"
    by (simp add: tektonExternals_def)
  have ty: "Type (arrayValue [''a'', ''b'', ''c'']) = ParamTypeArray"
    and len: "int (length (ArrayVal (arrayValue [''a'', ''b'', ''c'']))) < 2 ^ 63"
    by (simp_all add: arrayValue_def)
  have parts1: "strings_Split ''tasks.build.results.files[1]'' CHR ''.'' =
      [''tasks'', ''build'', ResultResultPart tektonExternals, ''files[1]'']"
    by (simp add: tektonExternals_def)
  have prn1: "ParseResultName tektonExternals ''files[1]'' = (''files'', ''1'')"
    by (simp add: tektonExternals_def parseResultName_def isDigit_def)
  have d1: "''1'' \<noteq> []" "list_all isDigit ''1''" by (simp_all add: isDigit_def)
  have parts5: "strings_Split ''tasks.build.results.files[5]'' CHR ''.'' =
      [''tasks'', ''build'', ResultResultPart tektonExternals, ''files[5]'']"
    by (simp add: tektonExternals_def)
  have prn5: "ParseResultName tektonExternals ''files[5]'' = (''files'', ''5'')"
    by (simp add: tektonExternals_def parseResultName_def isDigit_def)
  have d5: "''5'' \<noteq> []" "list_all isDigit ''5''" by (simp_all add: isDigit_def)
  have v1: "digitsVal ''1'' = 1" and v5: "digitsVal ''5'' = 5"
    by (simp_all add: digitsVal_def digitVal_def)
  have "ApplyTaskResultsToPipelineResults tektonExternals [secondFile] buildResults Map.empty Map.empty =
     Inr ([\<lparr>PipelineRunResult.Name = ''second'', Value = stringValue ''b''\<rparr>], None)"
    using array_index_is_bounds_checked
      [OF second_vars parts1 p0 prn1 d1 files_value ty len not_memoized_initial,
        THEN conjunct2, of Map.empty Map.empty]
    by (simp add: v1 arrayValue_def secondFile_def tektonExternals_def valueApplyReplacements_def
        stringValue_def exactReference_def stripStar_def applyReplacements_def)
  moreover
  have "ApplyTaskResultsToPipelineResults tektonExternals [sixthFile] buildResults Map.empty Map.empty =
     Inr ([], Some (invalidResultsError [''sixth'']))"
    using array_index_is_bounds_checked
      [OF sixth_vars parts5 p0 prn5 d5 files_value ty len not_memoized_initial,
        THEN conjunct2, of Map.empty Map.empty]
    by (simp add: v5 arrayValue_def sixthFile_def)
  ultimately show ?thesis by (rule conjI)
qed

lemma short_vars:
  "PipelineResult_GetVarSubstitutionExpressions tektonExternals shortReference = [''tasks.foo'']"
  by (simp add: tektonExternals_def shortReference_def valueExpressions_def stringValue_def
      matchExpression_def isNameChar_def)

lemma resolveVariable_short:
  assumes "strings_Split v CHR ''.'' = p0 # ps" "length ps < 2"
    and "p0 = ResultTaskPart x \<or> p0 = ResultFinallyPart x"
    and "\<not> isMemoized st v"
  shows "resolveVariable x trr ctr ts n (st, valid) v = Inl IndexOutOfRange"
  using assms by (auto simp: resolveVariable_def Let_def)

lemma ApplyTaskResultsToPipelineResults_returns:
  assumes "processPipelineResults x trr ctr ts initialAggState results = Inr st"
  shows "ApplyTaskResultsToPipelineResults x results trr ctr ts =
     Inr (runResults st,
          if invalidPipelineResults st = [] then None
          else Some (invalidResultsError (invalidPipelineResults st)))"
  using assms by (simp add: ApplyTaskResultsToPipelineResults_def)

text \<open>
  C1. The failures of a declared result are collected: whenever the loops end, the
  call returns the results emitted together with the error that lists the invalid
  names (lemma \<open>ApplyTaskResultsToPipelineResults_returns\<close>, and lemma
  \<open>partial_results_with_error\<close> for a call that returns one result and the error).
  The loops do not end for every input: a variable of fewer than three parts whose
  first part is \<^verbatim>\<open>tasks\<close> or \<^verbatim>\<open>finally\<close> makes the condition read \<open>variableParts[2]\<close>
  out of range, and the call panics instead of marking the declared result invalid.
\<close>

theorem short_reference_panics:
  "ApplyTaskResultsToPipelineResults tektonExternals [shortReference] Map.empty Map.empty Map.empty =
     Inl IndexOutOfRange"
proof -
  have parts: "strings_Split ''tasks.foo'' CHR ''.'' = ''tasks'' # [''foo'']" by simp
  have "resolveVariable tektonExternals Map.empty Map.empty Map.empty ''short''
          (initialAggState, True) ''tasks.foo'' = Inl IndexOutOfRange"
    by (rule resolveVariable_short [OF parts _ _ not_memoized_initial])
      (simp_all add: tektonExternals_def)
  then show ?thesis
    using short_vars
    by (simp add: ApplyTaskResultsToPipelineResults_def processPipelineResult_def shortReference_def)
qed

lemma partial_results_with_error:
  "ApplyTaskResultsToPipelineResults tektonExternals [secondFile, sixthFile] buildResults
      Map.empty Map.empty =
     Inr ([\<lparr>PipelineRunResult.Name = ''second'', Value = stringValue ''b''\<rparr>],
          Some (invalidResultsError [''sixth'']))"
  using second_vars sixth_vars files_value
  by (simp add: ApplyTaskResultsToPipelineResults_def processPipelineResult_def
      resolveVariable_def isMemoized_def initialAggState_def Let_def markInvalid_def
      tektonExternals_def parseResultName_def isDigit_def strconv_Atoi_def digitsVal_def
      digitVal_def arrayValue_def secondFile_def sixthFile_def valueApplyReplacements_def
      stringValue_def exactReference_def stripStar_def applyReplacements_def)









section \<open>The run state\<close>

text \<open>
  C9. \<open>ApplyTaskResults\<close> and \<open>ApplyPipelineTaskStateContext\<close> return a state of the
  length of the one they are given; an entry whose \<open>PipelineTask\<close> pointer is nil comes
  back as it was, and every other entry comes back with its task replaced by the copy
  with the substitutions. Neither function has a panic among its results: the pointer
  is read only under the test that it is not nil.
\<close>

theorem nil_pipeline_task_entries_are_left_alone:
  "length (ApplyTaskResults x targets m) = length targets \<and>
   length (ApplyPipelineTaskStateContext x targets r) = length targets \<and>
   (\<forall>i < length targets.
      (PipelineTask (targets ! i) = None \<longrightarrow>
         ApplyTaskResults x targets m ! i = targets ! i \<and>
         ApplyPipelineTaskStateContext x targets r ! i = targets ! i) \<and>
      (\<forall>t. PipelineTask (targets ! i) = Some t \<longrightarrow>
         ApplyTaskResults x targets m ! i =
           (targets ! i)\<lparr>PipelineTask := Some (applyTaskResultsToTask x m t)\<rparr> \<and>
         ApplyPipelineTaskStateContext x targets r ! i =
           (targets ! i)\<lparr>PipelineTask := Some (applyStateContextToTask x r t)\<rparr>))"
  by (simp add: ApplyTaskResults_def ApplyPipelineTaskStateContext_def)

lemma greet_resolved:
  "applyTaskResultsToTask tektonExternals digestMaps greetTask = greetTaskResolved"
  "applyStateContextToTask tektonExternals (strings digestMaps) greetTask = greetTaskResolved"
  by (simp_all add: applyTaskResultsToTask_def applyStateContextToTask_def greetTask_def
      greetTaskResolved_def digestMaps_def tektonExternals_def IsMatrixed_def Let_def
      paramsReplaceVariables_def whenReplaceVariables_def valueApplyReplacements_def
      stringValue_def exactReference_def stripStar_def applyReplacements_def)

theorem nil_pipeline_task_witness:
  "ApplyTaskResults tektonExternals [nilEntry, greetEntry] digestMaps =
     [nilEntry, greetEntry\<lparr>PipelineTask := Some greetTaskResolved\<rparr>] \<and>
   ApplyPipelineTaskStateContext tektonExternals [nilEntry, greetEntry] (strings digestMaps) =
     [nilEntry, greetEntry\<lparr>PipelineTask := Some greetTaskResolved\<rparr>]"
proof -
  let ?ts = "[nilEntry, greetEntry]"
  note T = nil_pipeline_task_entries_are_left_alone
             [of tektonExternals ?ts digestMaps "strings digestMaps"]
  have n: "PipelineTask (?ts ! 0) = None" and g: "PipelineTask (?ts ! 1) = Some greetTask"
    by (simp_all add: nilEntry_def greetEntry_def)
  have l: "length (ApplyTaskResults tektonExternals ?ts digestMaps) = 2"
    "length (ApplyPipelineTaskStateContext tektonExternals ?ts (strings digestMaps)) = 2"
    using T by simp_all
  have z: "ApplyTaskResults tektonExternals ?ts digestMaps ! 0 = nilEntry"
    "ApplyPipelineTaskStateContext tektonExternals ?ts (strings digestMaps) ! 0 = nilEntry"
    using T n by auto
  have o: "ApplyTaskResults tektonExternals ?ts digestMaps ! 1 =
        greetEntry\<lparr>PipelineTask := Some greetTaskResolved\<rparr>"
    "ApplyPipelineTaskStateContext tektonExternals ?ts (strings digestMaps) ! 1 =
        greetEntry\<lparr>PipelineTask := Some greetTaskResolved\<rparr>"
    using T g greet_resolved by auto
  have two: "xs = [xs ! 0, xs ! 1]" if "length xs = 2" for xs :: "ResolvedPipelineTask list"
    using that by (cases xs; cases "tl xs") auto
  show ?thesis
    using two [OF l(1)] two [OF l(2)] z o by simp
qed

section \<open>The specification passed to the resolvers\<close>

text \<open>
  C6. \<open>ApplyParameters\<close>, \<open>ApplyWorkspaces\<close> and \<open>ApplyPipelineTaskContexts\<close> copy
  their argument before the first write, so the model returns the copy alone.
  \<open>ApplyContexts\<close> writes the display name of every task of the specification it is
  given, and copies it afterwards: on a task whose display name refers to the pipeline
  name, the specification of the caller holds the substituted display name after the
  call.
\<close>

theorem ApplyContexts_writes_the_display_names_of_its_argument:
  "map DisplayName (Tasks namedSpec) = [''build of $(context.pipeline.name)''] \<and>
   map DisplayName (Tasks (fst (ApplyContexts tektonExternals namedSpec ''ci'' plainRun))) =
     [''build of ci''] \<and>
   map DisplayName (Tasks (snd (ApplyContexts tektonExternals namedSpec ''ci'' plainRun))) =
     [''build of ci'']"
  by (simp add: ApplyContexts_def Let_def applyContextsToDisplayNames_def namedSpec_def
      namedTask_def GetContextReplacements_def plainRun_def tektonExternals_def
      applyReplacements_def ApplyReplacements_def replaceVariablesInPipelineTasks_def
      replaceVariablesInPipelineTask_def IsMatrixed_def propagateParams_def
      paramsReplaceVariables_def whenReplaceVariables_def)

section \<open>The matrix lengths\<close>




lemma withCache_PipelineTask: "PipelineTask (withCache x tn e) = PipelineTask e"
  by (simp add: withCache_def)









lemma map_withCache_PipelineTask:
  "map PipelineTask (map (withCache x tn) es) = map PipelineTask es"
  by (simp add: withCache_PipelineTask comp_def)








lemma initial_keys:
  "[''context.pipelineTask.retries'' \<mapsto> v] k \<noteq> None \<longleftrightarrow> k = ''context.pipelineTask.retries''"
  by simp


















end
